theory Spec2Isabelle
  imports Main
begin

section \<open>Values, exceptions and tables\<close>

text \<open>
  The four operations of \<^verbatim>\<open>src/data_wrangling.py\<close> work on pandas tables. The part of
  pandas they call is modelled here, one definition per pandas call, each with the
  pandas behaviour it stands for.

  A cell holds a Python object: a string, an integer, or a missing value (\<^verbatim>\<open>None\<close> and
  the float \<^verbatim>\<open>nan\<close>, which pandas treats alike). Row labels and column labels are cells
  too, since pandas accepts any hashable label and \<^verbatim>\<open>unstack\<close> turns values into
  column labels. Strings are ASCII.
\<close>

datatype cell = NaN | Str string | Num int

datatype exn =
  KeyError | ValueError | TypeError | AttributeError | OSError | MergeError | OtherError string

text \<open>
  A table: the name of its row index (if it has one), the row labels, and the columns
  in their order, each a label with one value per row.
\<close>

record dataframe =
  index_name :: "cell option"
  index :: "cell list"
  columns :: "(cell \<times> cell list) list"

definition labels :: "dataframe \<Rightarrow> cell list" where
  "labels df = map fst (columns df)"

text \<open>Column labels are unique and every column has one value per row.\<close>

definition wf_frame :: "dataframe \<Rightarrow> bool" where
  "wf_frame df \<longleftrightarrow>
     distinct (labels df) \<and> (\<forall>c \<in> set (columns df). length (snd c) = length (index df))"

text \<open>\<^verbatim>\<open>df[c]\<close>: the column labelled \<open>c\<close>, \<^verbatim>\<open>KeyError\<close> when there is none.\<close>

definition getitem :: "dataframe \<Rightarrow> cell \<Rightarrow> exn + cell list" where
  "getitem df c = (case map_of (columns df) c of None \<Rightarrow> Inl KeyError | Some vs \<Rightarrow> Inr vs)"

text \<open>
  \<^verbatim>\<open>df[c] = vs\<close>: an existing column is replaced where it stands, a new one is appended
  as the last column.
\<close>

fun assign :: "cell \<Rightarrow> cell list \<Rightarrow> (cell \<times> cell list) list \<Rightarrow> (cell \<times> cell list) list" where
  "assign c vs [] = [(c, vs)]"
| "assign c vs (p # ps) = (if fst p = c then (c, vs) # ps else p # assign c vs ps)"

definition setitem :: "dataframe \<Rightarrow> cell \<Rightarrow> cell list \<Rightarrow> dataframe" where
  "setitem df c vs = df\<lparr>columns := assign c vs (columns df)\<rparr>"

text \<open>\<^verbatim>\<open>df.drop(columns=c, inplace=True)\<close>: \<^verbatim>\<open>KeyError\<close> when there is no such column.\<close>

definition drop_column :: "dataframe \<Rightarrow> cell \<Rightarrow> exn + dataframe" where
  "drop_column df c =
     (if c \<in> set (labels df) then Inr (df\<lparr>columns := filter (\<lambda>p. fst p \<noteq> c) (columns df)\<rparr>)
      else Inl KeyError)"

subsection \<open>Order of labels\<close>

text \<open>
  \<^verbatim>\<open>unstack\<close> and \<^verbatim>\<open>groupby\<close> return their row and column labels sorted. Strings compare
  by character code as in Python; where numbers and strings are mixed, numbers come
  first; a missing label comes before all others, as it does among the columns that
  \<^verbatim>\<open>unstack\<close> returns. No theorem below depends on the order.
\<close>

fun str_le :: "string \<Rightarrow> string \<Rightarrow> bool" where
  "str_le [] t = True"
| "str_le (c # s) [] = False"
| "str_le (c # s) (d # t) = (if c = d then str_le s t else (of_char c :: nat) < of_char d)"

fun cell_le :: "cell \<Rightarrow> cell \<Rightarrow> bool" where
  "cell_le NaN y = True"
| "cell_le (Num a) NaN = False"
| "cell_le (Num a) (Num b) = (a \<le> b)"
| "cell_le (Num a) (Str t) = True"
| "cell_le (Str s) (Str t) = str_le s t"
| "cell_le (Str s) y = False"

fun insert_sorted :: "cell \<Rightarrow> cell list \<Rightarrow> cell list" where
  "insert_sorted x [] = [x]"
| "insert_sorted x (y # ys) = (if cell_le x y then x # y # ys else y # insert_sorted x ys)"

fun sort_cells :: "cell list \<Rightarrow> cell list" where
  "sort_cells [] = []"
| "sort_cells (x # xs) = insert_sorted x (sort_cells xs)"

text \<open>\<^verbatim>\<open>Series.unique()\<close>: the distinct values in order of first appearance.\<close>

fun unique :: "'a list \<Rightarrow> 'a list" where
  "unique [] = []"
| "unique (x # xs) = x # unique (filter (\<lambda>y. y \<noteq> x) xs)"

subsection \<open>Reshaping: unstack, groupby, merge\<close>

definition or_nan :: "cell option \<Rightarrow> cell" where
  "or_nan v = (case v of None \<Rightarrow> NaN | Some c \<Rightarrow> c)"

text \<open>
  \<^verbatim>\<open>df.set_index([id, key])[value].unstack()\<close>. \<^verbatim>\<open>set_index\<close> needs both columns
  (\<^verbatim>\<open>KeyError\<close>) and moves them out of the table, so selecting \<open>value\<close> afterwards fails
  when it is one of them. \<^verbatim>\<open>unstack\<close> raises \<^verbatim>\<open>ValueError\<close> ("Index contains duplicate
  entries, cannot reshape") when an (id, key) pair occurs twice. Otherwise the result
  has one row per distinct id, named \<open>ident\<close>, one column per distinct key, and holds the
  value of the pair, or a missing value where the pair does not occur.
\<close>

definition set_index_unstack :: "dataframe \<Rightarrow> cell \<Rightarrow> cell \<Rightarrow> cell \<Rightarrow> exn + dataframe" where
  "set_index_unstack df ident key value =
     (case getitem df ident of Inl e \<Rightarrow> Inl e | Inr ids \<Rightarrow>
      case getitem df key of Inl e \<Rightarrow> Inl e | Inr keys \<Rightarrow>
      if value = ident \<or> value = key then Inl KeyError else
      case getitem df value of Inl e \<Rightarrow> Inl e | Inr vals \<Rightarrow>
      if \<not> distinct (zip ids keys) then Inl ValueError else
      Inr \<lparr>index_name = Some ident,
           index = sort_cells (unique ids),
           columns = map (\<lambda>k. (k, map (\<lambda>i. or_nan (map_of (zip (zip ids keys) vals) (i, k)))
                                      (sort_cells (unique ids))))
                         (sort_cells (unique keys))\<rparr>)"

text \<open>\<^verbatim>\<open>df.loc[:, ~df.columns.isin(cs)]\<close>: the table without the columns labelled in \<open>cs\<close>.\<close>

definition loc_not_isin :: "dataframe \<Rightarrow> cell list \<Rightarrow> dataframe" where
  "loc_not_isin df cs = df\<lparr>columns := filter (\<lambda>p. fst p \<notin> set cs) (columns df)\<rparr>"

text \<open>
  \<^verbatim>\<open>GroupBy.first()\<close> takes, per group and column, the first value that is not missing
  (pandas: "Compute the first non-null entry of each column"), and a missing value when
  the group has none.
\<close>

definition first_valid :: "cell list \<Rightarrow> cell" where
  "first_valid vs = (case filter (\<lambda>v. v \<noteq> NaN) vs of [] \<Rightarrow> NaN | v # rest \<Rightarrow> v)"

text \<open>The values of a column in the rows whose group key is \<open>g\<close>, in row order.\<close>

definition group_values :: "cell list \<Rightarrow> cell \<Rightarrow> cell list \<Rightarrow> cell list" where
  "group_values ids g vs = map snd (filter (\<lambda>p. fst p = g) (zip ids vs))"

text \<open>
  \<^verbatim>\<open>df.groupby(id).first()\<close>. \<open>ident\<close> names a column, or else the row index; a name that
  is both is ambiguous (\<^verbatim>\<open>ValueError\<close>), one that is neither is a \<^verbatim>\<open>KeyError\<close>. Rows
  whose group key is missing are dropped. The result has one row per group, named
  \<open>ident\<close>, and the columns other than the grouping column.
\<close>

definition groupby_first :: "dataframe \<Rightarrow> cell \<Rightarrow> exn + dataframe" where
  "groupby_first df ident =
     (if ident \<in> set (labels df) \<and> index_name df = Some ident then Inl ValueError
      else if ident \<notin> set (labels df) \<and> index_name df \<noteq> Some ident then Inl KeyError
      else
        let ids = (case map_of (columns df) ident of Some vs \<Rightarrow> vs | None \<Rightarrow> index df);
            groups = sort_cells (unique (filter (\<lambda>v. v \<noteq> NaN) ids))
        in Inr \<lparr>index_name = Some ident,
                index = groups,
                columns = map (\<lambda>p. (fst p, map (\<lambda>g. first_valid (group_values ids g (snd p))) groups))
                              (filter (\<lambda>p. fst p \<noteq> ident) (columns df))\<rparr>)"

text \<open>\<^verbatim>\<open>str(x)\<close> of a label, which \<^verbatim>\<open>merge\<close> uses when it adds a suffix.\<close>

fun digits :: "nat \<Rightarrow> string" where
  "digits n = (if n < 10 then [char_of (48 + n)] else digits (n div 10) @ [char_of (48 + n mod 10)])"

fun py_str :: "cell \<Rightarrow> string" where
  "py_str NaN = ''nan''"
| "py_str (Str s) = s"
| "py_str (Num i) = (if i < 0 then CHR ''-'' # digits (nat (- i)) else digits (nat i))"

definition add_suffix :: "cell list \<Rightarrow> string \<Rightarrow> cell \<Rightarrow> cell" where
  "add_suffix overlap suffix c = (if c \<in> set overlap then Str (py_str c @ suffix) else c)"

text \<open>
  \<^verbatim>\<open>Index.duplicated()\<close>: for each label, whether it has occurred before.
\<close>

fun duplicated_from :: "'a list \<Rightarrow> 'a list \<Rightarrow> bool list" where
  "duplicated_from seen [] = []"
| "duplicated_from seen (x # xs) = (x \<in> set seen) # duplicated_from (x # seen) xs"

definition duplicated :: "'a list \<Rightarrow> bool list" where
  "duplicated xs = duplicated_from [] xs"

text \<open>
  After adding the suffixes \<^verbatim>\<open>merge\<close> looks, on each side, for a label that is a
  duplicate now and was none before, and raises \<^verbatim>\<open>MergeError\<close> ("Passing 'suffixes' which
  cause duplicate columns is not allowed") when there is one.
\<close>

definition suffix_duplicates :: "cell list \<Rightarrow> cell list \<Rightarrow> bool" where
  "suffix_duplicates old new \<longleftrightarrow>
     list_ex (\<lambda>p. snd p \<and> \<not> fst p) (zip (duplicated old) (duplicated new))"

text \<open>
  \<^verbatim>\<open>left.merge(right, on=on)\<close> for two tables that are both indexed by \<open>on\<close> with
  unique row labels, as the two tables of \<open>pre_processing\<close> are. The join is pandas'
  default, an inner join: the rows of \<open>left\<close>, in order, whose label is also a row of
  \<open>right\<close>. A column label that occurs on both sides gets the suffix \<^verbatim>\<open>_x\<close> on the left
  and \<^verbatim>\<open>_y\<close> on the right. When \<open>on\<close> is also a column label of one of the tables,
  pandas refuses it as ambiguous (\<^verbatim>\<open>ValueError\<close>: "is both an index level and a column
  label"). A suffix that makes a new duplicate label on one side is refused too
  (\<^verbatim>\<open>MergeError\<close>).
\<close>

definition merge :: "dataframe \<Rightarrow> dataframe \<Rightarrow> cell \<Rightarrow> exn + dataframe" where
  "merge left right on =
     (if on \<in> set (labels left) \<or> on \<in> set (labels right) then Inl ValueError
      else
        let overlap = filter (\<lambda>c. c \<in> set (labels right)) (labels left);
            kept = filter (\<lambda>i. i \<in> set (index right)) (index left)
        in
          if suffix_duplicates (labels left) (map (add_suffix overlap ''_x'') (labels left))
             \<or> suffix_duplicates (labels right) (map (add_suffix overlap ''_y'') (labels right))
          then Inl MergeError
          else
             Inr \<lparr>index_name = Some on,
                index = kept,
                columns =
                  map (\<lambda>p. (add_suffix overlap ''_x'' (fst p),
                             map snd (filter (\<lambda>q. fst q \<in> set (index right)) (zip (index left) (snd p)))))
                      (columns left) @
                  map (\<lambda>p. (add_suffix overlap ''_y'' (fst p),
                             map (\<lambda>i. or_nan (map_of (zip (index right) (snd p)) i)) kept))
                      (columns right)\<rparr>)"

section \<open>The program state\<close>

text \<open>
  Tables are objects: \<open>translate\<close>, \<open>normalize\<close> and \<open>get_country_codes\<close> change the
  table they are given and return that same object. The state holds the tables by
  address, the records written to the log, and the queries sent to the geocoding
  service.
\<close>

datatype log_record = Error string | Info string

record world =
  heap :: "nat \<Rightarrow> dataframe"
  next_ref :: nat
  log :: "log_record list"
  geocode_calls :: "cell list"

text \<open>
  A call either returns (a table's address, or \<open>None\<close> for Python's \<^verbatim>\<open>None\<close>) or raises
  to its caller.
\<close>

datatype outcome = Returned "nat option" | Raised exn

definition logging :: "log_record \<Rightarrow> world \<Rightarrow> world" where
  "logging r w = w\<lparr>log := log w @ [r]\<rparr>"

definition new_frame :: "dataframe \<Rightarrow> world \<Rightarrow> world \<times> outcome" where
  "new_frame df w =
     (w\<lparr>heap := (heap w)(next_ref w := df), next_ref := Suc (next_ref w)\<rparr>,
      Returned (Some (next_ref w)))"

section \<open>pre_processing\<close>

text \<open>
  \<^verbatim>\<open>
  try:
      df1 = df.set_index([id, key])[value].unstack()
      df2 = df.loc[:, ~df.columns.isin([key, value])].groupby(id).first()
  except Exception:
      logging.exception("An unexpected error occured while pre-processing")
  else:
      logging.info("Pre-processing done correctly")
      return df1.merge(df2, on=id)
  \<close>
  The two tables are built inside the \<^verbatim>\<open>try\<close>; the merge stands in the \<^verbatim>\<open>else\<close>
  branch, so an exception of the merge is not caught.
\<close>

definition pre_processing_try :: "dataframe \<Rightarrow> string \<Rightarrow> string \<Rightarrow> string \<Rightarrow> exn + dataframe \<times> dataframe" where
  "pre_processing_try df key value ident =
     (case set_index_unstack df (Str ident) (Str key) (Str value) of Inl e \<Rightarrow> Inl e | Inr df1 \<Rightarrow>
      case groupby_first (loc_not_isin df [Str key, Str value]) (Str ident) of Inl e \<Rightarrow> Inl e | Inr df2 \<Rightarrow>
      Inr (df1, df2))"

definition pre_processing :: "world \<Rightarrow> nat \<Rightarrow> string \<Rightarrow> string \<Rightarrow> string \<Rightarrow> world \<times> outcome" where
  "pre_processing w df key value ident =
     (case pre_processing_try (heap w df) key value ident of
        Inl e \<Rightarrow>
          (logging (Error ''An unexpected error occured while pre-processing'') w, Returned None)
      | Inr (df1, df2) \<Rightarrow>
          (case merge df1 df2 (Str ident) of
             Inl e \<Rightarrow> (logging (Info ''Pre-processing done correctly'') w, Raised e)
           | Inr out \<Rightarrow> new_frame out (logging (Info ''Pre-processing done correctly'') w)))"

section \<open>translate\<close>

text \<open>
  The translation file is read through \<^verbatim>\<open>open\<close> and \<^verbatim>\<open>json.load\<close>, which raise when the
  file is missing or is not JSON. A JSON object becomes a dictionary with string keys
  (\<^verbatim>\<open>null\<close> is a missing value); any other JSON document is not a mapping.
\<close>

datatype json = JObject "string \<Rightarrow> cell option" | JOther

type_synonym files = "string \<Rightarrow> exn + json"

text \<open>
  \<^verbatim>\<open>Series.map(d)\<close> with a dictionary: each value is looked up, a value that is not a key
  becomes a missing value. \<^verbatim>\<open>Series.fillna(fill)\<close> replaces every missing value.
\<close>

definition series_map :: "(cell \<Rightarrow> cell option) \<Rightarrow> cell list \<Rightarrow> cell list" where
  "series_map d vs = map (\<lambda>v. or_nan (d v)) vs"

definition str_keys :: "(string \<Rightarrow> cell option) \<Rightarrow> cell \<Rightarrow> cell option" where
  "str_keys d v = (case v of Str s \<Rightarrow> d s | _ \<Rightarrow> None)"

definition fillna :: "string \<Rightarrow> cell list \<Rightarrow> cell list" where
  "fillna fill vs = map (\<lambda>v. if v = NaN then Str fill else v) vs"

text \<open>\<^verbatim>\<open>str.upper()\<close>, \<^verbatim>\<open>str.isupper()\<close> and \<^verbatim>\<open>str.title()\<close> on ASCII strings.\<close>

definition is_lower :: "char \<Rightarrow> bool" where
  "is_lower c \<longleftrightarrow> 97 \<le> (of_char c :: nat) \<and> (of_char c :: nat) \<le> 122"

definition is_upper :: "char \<Rightarrow> bool" where
  "is_upper c \<longleftrightarrow> 65 \<le> (of_char c :: nat) \<and> (of_char c :: nat) \<le> 90"

definition to_upper :: "char \<Rightarrow> char" where
  "to_upper c = (if is_lower c then char_of ((of_char c :: nat) - 32) else c)"

definition to_lower :: "char \<Rightarrow> char" where
  "to_lower c = (if is_upper c then char_of ((of_char c :: nat) + 32) else c)"

definition upper :: "string \<Rightarrow> string" where
  "upper s = map to_upper s"

definition isupper :: "string \<Rightarrow> bool" where
  "isupper s \<longleftrightarrow> list_ex is_upper s \<and> \<not> list_ex is_lower s"

fun title_from :: "bool \<Rightarrow> string \<Rightarrow> string" where
  "title_from cased [] = []"
| "title_from cased (c # s) =
     (if is_lower c then (if cased then c else to_upper c) # title_from True s
      else if is_upper c then (if cased then to_lower c else c) # title_from True s
      else c # title_from False s)"

definition title :: "string \<Rightarrow> string" where
  "title s = title_from False s"

text \<open>
  \<^verbatim>\<open>
  try:
      with open(trans_filepath) as json_file:
          d = json.load(json_file)
      df[col] = df[col].map(d).fillna(fill)
  except Exception:
      logging.exception("An unexpected error occured while normalizing colors")
  else:
      logging.info(f"{col.title()} Translated correctly")
      return df
  \<close>
  The only statement that changes the table is the assignment, the last step of the
  \<^verbatim>\<open>try\<close>: \<open>translate_try\<close> gives the table's new content, or the exception raised
  before anything changed.
\<close>

definition translate_try :: "files \<Rightarrow> dataframe \<Rightarrow> string \<Rightarrow> string \<Rightarrow> string \<Rightarrow> exn + dataframe" where
  "translate_try fs df col trans_filepath fill =
     (case fs trans_filepath of Inl e \<Rightarrow> Inl e | Inr d \<Rightarrow>
      case getitem df (Str col) of Inl e \<Rightarrow> Inl e | Inr vs \<Rightarrow>
      case d of JOther \<Rightarrow> Inl TypeError
      | JObject m \<Rightarrow> Inr (setitem df (Str col) (fillna fill (series_map (str_keys m) vs))))"

definition translate :: "files \<Rightarrow> world \<Rightarrow> nat \<Rightarrow> string \<Rightarrow> string \<Rightarrow> string \<Rightarrow> world \<times> outcome" where
  "translate fs w df col trans_filepath fill =
     (case translate_try fs (heap w df) col trans_filepath fill of
        Inl e \<Rightarrow>
          (logging (Error ''An unexpected error occured while normalizing colors'') w, Returned None)
      | Inr df' \<Rightarrow>
          (logging (Info (title col @ '' Translated correctly'')) (w\<lparr>heap := (heap w)(df := df')\<rparr>),
           Returned (Some df)))"

section \<open>normalize\<close>

text \<open>
  A type tag is what \<^verbatim>\<open>astype\<close> is given. \<^verbatim>\<open>"O"\<close> and \<^verbatim>\<open>"category"\<close> keep every value
  (a categorical column takes its categories from the values it holds). A numeric tag
  such as \<^verbatim>\<open>"h"\<close> or \<^verbatim>\<open>np.float32\<close> converts value by value and raises at a value it cannot
  convert; it is represented by that conversion.
\<close>

datatype dtype = Object | Category | Numeric "cell \<Rightarrow> exn + cell"

fun try_map :: "('a \<Rightarrow> exn + 'b) \<Rightarrow> 'a list \<Rightarrow> exn + 'b list" where
  "try_map f [] = Inr []"
| "try_map f (x # xs) =
     (case f x of Inl e \<Rightarrow> Inl e
      | Inr y \<Rightarrow> (case try_map f xs of Inl e \<Rightarrow> Inl e | Inr ys \<Rightarrow> Inr (y # ys)))"

fun astype :: "dtype \<Rightarrow> cell list \<Rightarrow> exn + cell list" where
  "astype Object vs = Inr vs"
| "astype Category vs = Inr vs"
| "astype (Numeric conv) vs = try_map conv vs"

fun is_category :: "dtype \<Rightarrow> bool" where
  "is_category Category = True"
| "is_category t = False"

text \<open>
  An entry of the specification, the list \<^verbatim>\<open>values\<close> of the source: \<^verbatim>\<open>[old, type]\<close> or
  \<^verbatim>\<open>[old, type, function]\<close> when it names a source column, \<^verbatim>\<open>[None, type]\<close> or
  \<^verbatim>\<open>[None, type, literal]\<close> when it names none. The optional third element is what
  \<^verbatim>\<open>len(values) == 3\<close> tests. A transform is a Python function of one value that may
  raise.
\<close>

datatype entry =
  Source string dtype "(cell \<Rightarrow> exn + cell) option"
| No_source dtype "cell option"

text \<open>
  Line 100 of the source, \<^verbatim>\<open>df[new].fillna({new: fill}, inplace=True)\<close>. It is called on
  the column, a \<^verbatim>\<open>Series\<close>, and for a \<^verbatim>\<open>Series\<close> pandas reads the keys of a dictionary
  as row labels ("a dict of values specifying which value to use for each index (for a
  Series) or column (for a DataFrame); values not in the dict will not be filled"). So
  a missing value is filled only in a row whose label is the column's name. A
  categorical column raises when such a row is to be filled with a value that is none
  of its categories. The statement raises \<^verbatim>\<open>KeyError\<close> when the column does not exist.
\<close>

definition fillna_by_label :: "cell list \<Rightarrow> cell \<Rightarrow> string \<Rightarrow> cell list \<Rightarrow> cell list" where
  "fillna_by_label idx lbl fill vs =
     map (\<lambda>p. if snd p = NaN \<and> fst p = lbl then Str fill else snd p) (zip idx vs)"

definition fillna_inplace :: "bool \<Rightarrow> dataframe \<Rightarrow> string \<Rightarrow> string \<Rightarrow> exn + dataframe" where
  "fillna_inplace categorical df new_column_name fill =
     (case getitem df (Str new_column_name) of Inl e \<Rightarrow> Inl e | Inr vs \<Rightarrow>
      if categorical \<and> Str fill \<notin> set vs \<and> (Str new_column_name, NaN) \<in> set (zip (index df) vs)
      then Inl TypeError
      else Inr (setitem df (Str new_column_name)
                  (fillna_by_label (index df) (Str new_column_name) fill vs)))"

text \<open>
  One round of the loop. The table is changed in place statement by statement, so the
  result is the table as the round leaves it, with the exception that ended the round
  if one was raised.
  \<^verbatim>\<open>
  new_type = values[1]
  old_column_name = values[0]
  if old_column_name is not None:
      if len(values) == 3:
          df[old_column_name] = df[old_column_name].apply(values[2])
          df[new_column_name] = df[old_column_name].astype(new_type)
      else:
          df[new_column_name] = df[old_column_name].astype(new_type)
      if new_column_name != old_column_name:
          df.drop(columns=old_column_name, inplace=True)
  else:
      if len(values) == 3:
          df[new_column_name] = values[2]
          df[new_column_name] = df[new_column_name].astype(new_type)
  df[new_column_name].fillna({new_column_name: fill}, inplace=True)
  \<close>
\<close>

definition cast_column :: "dataframe \<Rightarrow> string \<Rightarrow> string \<Rightarrow> dtype \<Rightarrow> exn + dataframe" where
  "cast_column df new_column_name old_column_name new_type =
     (case getitem df (Str old_column_name) of Inl e \<Rightarrow> Inl e | Inr vs \<Rightarrow>
      case astype new_type vs of Inl e \<Rightarrow> Inl e | Inr cs \<Rightarrow>
      Inr (setitem df (Str new_column_name) cs))"

definition apply_column :: "dataframe \<Rightarrow> string \<Rightarrow> (cell \<Rightarrow> exn + cell) \<Rightarrow> exn + dataframe" where
  "apply_column df old_column_name f =
     (case getitem df (Str old_column_name) of Inl e \<Rightarrow> Inl e | Inr vs \<Rightarrow>
      case try_map f vs of Inl e \<Rightarrow> Inl e | Inr ws \<Rightarrow>
      Inr (setitem df (Str old_column_name) ws))"

definition finish_entry :: "bool \<Rightarrow> dataframe \<Rightarrow> string \<Rightarrow> string \<Rightarrow> dataframe \<times> exn option" where
  "finish_entry categorical df new_column_name fill =
     (case fillna_inplace categorical df new_column_name fill of
        Inl e \<Rightarrow> (df, Some e) | Inr df' \<Rightarrow> (df', None))"

definition cast_and_drop :: "dataframe \<Rightarrow> string \<Rightarrow> string \<Rightarrow> dtype \<Rightarrow> string \<Rightarrow> dataframe \<times> exn option" where
  "cast_and_drop df new_column_name old_column_name new_type fill =
     (case cast_column df new_column_name old_column_name new_type of
        Inl e \<Rightarrow> (df, Some e)
      | Inr df1 \<Rightarrow>
          if new_column_name \<noteq> old_column_name then
            (case drop_column df1 (Str old_column_name) of
               Inl e \<Rightarrow> (df1, Some e)
             | Inr df2 \<Rightarrow> finish_entry (is_category new_type) df2 new_column_name fill)
          else finish_entry (is_category new_type) df1 new_column_name fill)"

fun normalize_entry :: "dataframe \<Rightarrow> string \<Rightarrow> entry \<Rightarrow> string \<Rightarrow> dataframe \<times> exn option" where
  "normalize_entry df new_column_name (Source old_column_name new_type (Some f)) fill =
     (case apply_column df old_column_name f of
        Inl e \<Rightarrow> (df, Some e)
      | Inr df1 \<Rightarrow> cast_and_drop df1 new_column_name old_column_name new_type fill)"
| "normalize_entry df new_column_name (Source old_column_name new_type None) fill =
     cast_and_drop df new_column_name old_column_name new_type fill"
| "normalize_entry df new_column_name (No_source new_type (Some literal)) fill =
     (let df1 = setitem df (Str new_column_name) (map (\<lambda>i. literal) (index df)) in
      case cast_column df1 new_column_name new_column_name new_type of
        Inl e \<Rightarrow> (df1, Some e)
      | Inr df2 \<Rightarrow> finish_entry (is_category new_type) df2 new_column_name fill)"
| "normalize_entry df new_column_name (No_source new_type None) fill =
     finish_entry False df new_column_name fill"

text \<open>
  \<^verbatim>\<open>for new_column_name, values in col.items()\<close>: the entries in the dictionary's order,
  until one raises.
\<close>

fun normalize_loop :: "dataframe \<Rightarrow> (string \<times> entry) list \<Rightarrow> string \<Rightarrow> dataframe \<times> exn option" where
  "normalize_loop df [] fill = (df, None)"
| "normalize_loop df (item # items) fill =
     (case normalize_entry df (fst item) (snd item) fill of
        (df', Some e) \<Rightarrow> (df', Some e)
      | (df', None) \<Rightarrow> normalize_loop df' items fill)"

text \<open>
  \<^verbatim>\<open>
  try:
      for new_column_name, values in col.items(): ...
  except Exception:
      logging.exception("An unexpected error occured while normalizing")
  else:
      logging.info("Normalization done correctly")
      return df
  \<close>
  Whatever the loop did to the table before an exception stays done: the table is the
  caller's object.
\<close>

definition normalize :: "world \<Rightarrow> nat \<Rightarrow> (string \<times> entry) list \<Rightarrow> string \<Rightarrow> world \<times> outcome" where
  "normalize w df col fill =
     (case normalize_loop (heap w df) col fill of
        (df', Some e) \<Rightarrow>
          (logging (Error ''An unexpected error occured while normalizing'') (w\<lparr>heap := (heap w)(df := df')\<rparr>),
           Returned None)
      | (df', None) \<Rightarrow>
          (logging (Info ''Normalization done correctly'') (w\<lparr>heap := (heap w)(df := df')\<rparr>),
           Returned (Some df)))"

section \<open>get_country_codes\<close>

text \<open>
  The geocoding service is a function of the query: it raises, finds nothing
  (\<^verbatim>\<open>geocode\<close> returns \<^verbatim>\<open>None\<close>), or returns a location whose
  \<^verbatim>\<open>raw["address"]["country_code"]\<close> is a string or is absent.
\<close>

datatype location = Location "string option"

type_synonym geocoder = "cell \<Rightarrow> exn + location option"

text \<open>
  \<^verbatim>\<open>geolocator.geocode(city, addressdetails=True).raw["address"]["country_code"].upper()\<close>:
  \<^verbatim>\<open>AttributeError\<close> on \<^verbatim>\<open>None\<close>, \<^verbatim>\<open>KeyError\<close> on an address without a country code.
\<close>

definition country_code :: "geocoder \<Rightarrow> cell \<Rightarrow> exn + cell" where
  "country_code geocode city =
     (case geocode city of
        Inl e \<Rightarrow> Inl e
      | Inr None \<Rightarrow> Inl AttributeError
      | Inr (Some (Location None)) \<Rightarrow> Inl KeyError
      | Inr (Some (Location (Some code))) \<Rightarrow> Inr (Str (upper code)))"

text \<open>
  \<^verbatim>\<open>for city in df[col].unique(): city_dict[city] = ...\<close>: the loop over the distinct
  values, with the dictionary built so far and the queries sent so far. It stops at the
  first query that fails.
\<close>

fun city_loop :: "geocoder \<Rightarrow> cell list \<Rightarrow> (cell \<Rightarrow> cell option) \<Rightarrow> cell list
    \<Rightarrow> (exn + (cell \<Rightarrow> cell option)) \<times> cell list" where
  "city_loop geocode [] city_dict calls = (Inr city_dict, calls)"
| "city_loop geocode (city # cities) city_dict calls =
     (case country_code geocode city of
        Inl e \<Rightarrow> (Inl e, calls @ [city])
      | Inr code \<Rightarrow> city_loop geocode cities (city_dict(city \<mapsto> code)) (calls @ [city]))"

text \<open>
  \<^verbatim>\<open>
  try:
      geolocator = Nominatim(user_agent="get_city")
      city_dict = {}
      for city in df[col].unique(): ...
      df[col_name] = df[col].map(city_dict)
  except Exception:
      logging.exception("An unexpected error occured while retrieving country codes form cities")
  else:
      logging.info("Country code extraction correctly")
      return df
  \<close>
\<close>

definition get_country_codes_try :: "geocoder \<Rightarrow> dataframe \<Rightarrow> string \<Rightarrow> string \<Rightarrow> (exn + dataframe) \<times> cell list" where
  "get_country_codes_try geocode df col col_name =
     (case getitem df (Str col) of
        Inl e \<Rightarrow> (Inl e, [])
      | Inr vs \<Rightarrow>
          (case city_loop geocode (unique vs) Map.empty [] of
             (Inl e, calls) \<Rightarrow> (Inl e, calls)
           | (Inr city_dict, calls) \<Rightarrow>
               (Inr (setitem df (Str col_name) (series_map city_dict vs)), calls)))"

definition get_country_codes :: "geocoder \<Rightarrow> world \<Rightarrow> nat \<Rightarrow> string \<Rightarrow> string \<Rightarrow> world \<times> outcome" where
  "get_country_codes geocode w df col col_name =
     (case get_country_codes_try geocode (heap w df) col col_name of
        (Inl e, calls) \<Rightarrow>
          (logging (Error ''An unexpected error occured while retrieving country codes form cities'')
             (w\<lparr>geocode_calls := geocode_calls w @ calls\<rparr>),
           Returned None)
      | (Inr df', calls) \<Rightarrow>
          (logging (Info ''Country code extraction correctly'')
             (w\<lparr>heap := (heap w)(df := df'), geocode_calls := geocode_calls w @ calls\<rparr>),
           Returned (Some df)))"

section \<open>Reading a table, and example tables\<close>


text \<open>A state whose only table, at address 0, is \<open>df\<close>.\<close>

definition world_of :: "dataframe \<Rightarrow> world" where
  "world_of df = \<lparr>heap = (\<lambda>r. df), next_ref = 1, log = [], geocode_calls = []\<rparr>"

definition cars :: dataframe where
  "cars = \<lparr>index_name = None, index = [Num 0, Num 1, Num 2, Num 3],
     columns = [(Str ''ID'', [Num 1, Num 1, Num 2, Num 2]),
                (Str ''Attribute Names'', [Str ''Color'', Str ''City'', Str ''Color'', Str ''City'']),
                (Str ''Attribute Values'', [Str ''rood'', Str ''Zuzwil'', Str ''blauw'', Str ''Basel'']),
                (Str ''MakeText'', [Str ''VW'', Str ''VW'', Str ''BMW'', Str ''BMW'']),
                (Str ''TypeName'', [NaN, Str ''Golf'', Str ''X1'', Str ''X1''])]\<rparr>"

definition cars_clash :: dataframe where
  "cars_clash = \<lparr>index_name = None, index = [Num 0, Num 1],
     columns = [(Str ''ID'', [Num 1, Num 1]),
                (Str ''Attribute Names'', [Str ''Color'', Str ''MakeText'']),
                (Str ''Attribute Values'', [Str ''rood'', Str ''Volkswagen'']),
                (Str ''MakeText'', [Str ''VW'', Str ''VW''])]\<rparr>"

definition cars_dup :: dataframe where
  "cars_dup = \<lparr>index_name = None, index = [Num 0, Num 1, Num 2],
     columns = [(Str ''ID'', [Num 1, Num 2, Num 1]),
                (Str ''Attribute Names'', [Str ''Color'', Str ''Color'', Str ''Color'']),
                (Str ''Attribute Values'', [Str ''rood'', Str ''blauw'', Str ''groen''])]\<rparr>"

section \<open>Facts about the table operations\<close>

lemma set_insert_sorted: "set (insert_sorted x xs) = insert x (set xs)"
  by (induction xs) auto

lemma set_sort_cells: "set (sort_cells xs) = set xs"
  by (induction xs) (auto simp: set_insert_sorted)

lemma distinct_insert_sorted: "distinct (insert_sorted x xs) \<longleftrightarrow> x \<notin> set xs \<and> distinct xs"
  by (induction xs) (auto simp: set_insert_sorted)

lemma distinct_sort_cells: "distinct (sort_cells xs) = distinct xs"
  by (induction xs) (auto simp: distinct_insert_sorted set_sort_cells)

lemma set_unique: "set (unique xs) = set xs"
  by (induction xs rule: unique.induct) auto

lemma distinct_unique: "distinct (unique xs)"
  by (induction xs rule: unique.induct) (auto simp: set_unique)

lemma getitem_Inr: "getitem df c = Inr vs \<longleftrightarrow> map_of (columns df) c = Some vs"
  by (simp add: getitem_def split: option.splits)

lemma getitem_Inl: "getitem df c = Inl e \<longleftrightarrow> c \<notin> set (labels df) \<and> e = KeyError"
proof (cases "map_of (columns df) c")
  case None
  then have "c \<notin> set (labels df)"
    by (simp add: labels_def map_of_eq_None_iff)
  moreover have "getitem df c = Inl KeyError"
    using None by (simp add: getitem_def)
  ultimately show ?thesis by auto
next
  case (Some vs)
  then have "c \<in> fst ` set (columns df)"
    by (metis map_of_eq_None_iff option.distinct(1))
  with Some show ?thesis
    by (simp add: getitem_def labels_def)
qed

lemma getitem_labels: "getitem df c = Inr vs \<Longrightarrow> c \<in> set (labels df)"
  by (auto simp: getitem_Inr labels_def dest: map_of_SomeD intro: rev_image_eqI)

lemma getitem_length: "wf_frame df \<Longrightarrow> getitem df c = Inr vs \<Longrightarrow> length vs = length (index df)"
  by (auto simp: wf_frame_def getitem_Inr dest!: map_of_SomeD)

lemma map_of_assign: "map_of (assign c vs ps) = (map_of ps)(c \<mapsto> vs)"
  by (induction ps) auto

lemma labels_assign:
  "map fst (assign c vs ps) = (if c \<in> set (map fst ps) then map fst ps else map fst ps @ [c])"
  by (induction ps) auto

lemma assign_same: "map_of ps c = Some vs \<Longrightarrow> assign c vs ps = ps"
  by (induction ps) (auto split: if_splits)

lemma getitem_setitem: "getitem (setitem df c vs) c' = (if c' = c then Inr vs else getitem df c')"
  by (simp add: getitem_def setitem_def map_of_assign)


lemma map_of_filter_fst: "P c \<Longrightarrow> map_of (filter (\<lambda>p. P (fst p)) ps) c = map_of ps c"
  by (induction ps) auto

lemma map_of_filter_fst_None: "\<not> P c \<Longrightarrow> map_of (filter (\<lambda>p. P (fst p)) ps) c = None"
  by (induction ps) auto

lemma length_filter_zip_fst:
  "length xs = length ys \<Longrightarrow> length (filter (\<lambda>q. P (fst q)) (zip xs ys)) = length (filter P xs)"
  by (induction xs ys rule: list_induct2) auto

lemma add_suffix_Nil: "add_suffix [] s c = c"
  by (simp add: add_suffix_def)

lemma map_add_suffix_Nil: "map (add_suffix [] s) xs = xs"
  by (induction xs) (simp_all add: add_suffix_Nil)

lemma suffix_duplicates_same: "\<not> suffix_duplicates xs xs"
  by (auto simp: suffix_duplicates_def list_ex_iff zip_same)

lemma merge_disjoint:
  assumes "on \<notin> set (labels left)" and "on \<notin> set (labels right)"
      and "set (labels left) \<inter> set (labels right) = {}"
  shows "merge left right on =
     Inr \<lparr>index_name = Some on,
          index = filter (\<lambda>i. i \<in> set (index right)) (index left),
          columns =
            map (\<lambda>p. (fst p, map snd (filter (\<lambda>q. fst q \<in> set (index right)) (zip (index left) (snd p)))))
                (columns left) @
            map (\<lambda>p. (fst p, map (\<lambda>i. or_nan (map_of (zip (index right) (snd p)) i))
                                  (filter (\<lambda>i. i \<in> set (index right)) (index left))))
                (columns right)\<rparr>"
proof -
  have "filter (\<lambda>c. c \<in> set (labels right)) (labels left) = []"
    using assms(3) by (auto simp: filter_empty_conv)
  then show ?thesis
    using assms(1,2) by (simp add: merge_def add_suffix_Nil map_add_suffix_Nil Let_def suffix_duplicates_same)
qed

lemma unstack_success:
  assumes "getitem df (Str ident) = Inr ids" and "getitem df (Str key) = Inr keys"
      and "getitem df (Str value) = Inr vals"
      and "ident \<noteq> value" and "key \<noteq> value" and "distinct (zip ids keys)"
  shows "set_index_unstack df (Str ident) (Str key) (Str value) =
     Inr \<lparr>index_name = Some (Str ident),
          index = sort_cells (unique ids),
          columns = map (\<lambda>k. (k, map (\<lambda>i. or_nan (map_of (zip (zip ids keys) vals) (i, k)))
                                     (sort_cells (unique ids))))
                        (sort_cells (unique keys))\<rparr>"
  using assms by (simp add: set_index_unstack_def)

lemma groupby_success:
  assumes "getitem df (Str ident) = Inr ids"
      and "ident \<noteq> key" and "ident \<noteq> value"
      and "index_name df \<noteq> Some (Str ident)"
  shows "groupby_first (loc_not_isin df [Str key, Str value]) (Str ident) =
     Inr \<lparr>index_name = Some (Str ident),
          index = sort_cells (unique (filter (\<lambda>v. v \<noteq> NaN) ids)),
          columns = map (\<lambda>p. (fst p, map (\<lambda>g. first_valid (group_values ids g (snd p)))
                                         (sort_cells (unique (filter (\<lambda>v. v \<noteq> NaN) ids)))))
                        (filter (\<lambda>p. fst p \<noteq> Str ident)
                           (filter (\<lambda>p. fst p \<notin> set [Str key, Str value]) (columns df)))\<rparr>"
proof -
  have m: "map_of (filter (\<lambda>p. fst p \<notin> set [Str key, Str value]) (columns df)) (Str ident) = Some ids"
    using assms(1-3) map_of_filter_fst [of "\<lambda>c. c \<notin> set [Str key, Str value]" "Str ident" "columns df"]
    by (simp add: getitem_Inr)
  then have "getitem (loc_not_isin df [Str key, Str value]) (Str ident) = Inr ids"
    by (simp add: getitem_Inr loc_not_isin_def)
  then have "Str ident \<in> set (labels (loc_not_isin df [Str key, Str value]))"
    by (rule getitem_labels)
  then show ?thesis
    using m assms(4) by (simp add: groupby_first_def loc_not_isin_def Let_def)
qed

section \<open>pre_processing: the reshaped table\<close>

lemma pre_processing_output:
  assumes "getitem (heap w df) (Str ident) = Inr ids"
      and "getitem (heap w df) (Str key) = Inr keys"
      and "getitem (heap w df) (Str value) = Inr vals"
      and "ident \<noteq> key" and "ident \<noteq> value" and "key \<noteq> value"
      and "distinct (zip ids keys)"
      and "index_name (heap w df) \<noteq> Some (Str ident)"
      and "set keys \<inter> (set (labels (heap w df)) - {Str key, Str value}) = {}"
  shows "\<exists>out. pre_processing w df key value ident =
                 new_frame out (logging (Info ''Pre-processing done correctly'') w)
          \<and> index_name out = Some (Str ident)
          \<and> index out = filter (\<lambda>i. i \<noteq> NaN) (sort_cells (unique ids))
          \<and> columns out =
              map (\<lambda>k. (k, map snd (filter (\<lambda>q. fst q \<noteq> NaN)
                                       (zip (sort_cells (unique ids))
                                            (map (\<lambda>i. or_nan (map_of (zip (zip ids keys) vals) (i, k)))
                                                 (sort_cells (unique ids)))))))
                  (sort_cells (unique keys)) @
              map (\<lambda>p. (fst p, map (\<lambda>g. first_valid (group_values ids g (snd p)))
                                    (filter (\<lambda>i. i \<noteq> NaN) (sort_cells (unique ids)))))
                  (filter (\<lambda>p. fst p \<notin> {Str ident, Str key, Str value}) (columns (heap w df)))"
proof -
  let ?df = "heap w df"
  let ?groups = "sort_cells (unique (filter (\<lambda>v. v \<noteq> NaN) ids))"
  let ?rows = "sort_cells (unique ids)"
  let ?pass = "filter (\<lambda>p. fst p \<noteq> Str ident) (filter (\<lambda>p. fst p \<notin> set [Str key, Str value]) (columns ?df))"
  let ?df1 = "\<lparr>index_name = Some (Str ident), index = ?rows,
          columns = map (\<lambda>k. (k, map (\<lambda>i. or_nan (map_of (zip (zip ids keys) vals) (i, k))) ?rows))
                        (sort_cells (unique keys))\<rparr>"
  let ?df2 = "\<lparr>index_name = Some (Str ident), index = ?groups,
          columns = map (\<lambda>p. (fst p, map (\<lambda>g. first_valid (group_values ids g (snd p))) ?groups)) ?pass\<rparr>"
  have body: "pre_processing_try ?df key value ident = Inr (?df1, ?df2)"
    using unstack_success [OF assms(1,2,3,5,6,7)] groupby_success [OF assms(1,4,5,8)]
    by (simp add: pre_processing_try_def)
  have l1: "set (labels ?df1) = set keys"
    by (simp add: labels_def comp_def set_sort_cells set_unique)
  have l2: "set (labels ?df2) = set (labels ?df) - {Str ident, Str key, Str value}"
    by (auto simp: labels_def comp_def)
  have idl: "Str ident \<in> set (labels ?df)"
    using assms(1) by (rule getitem_labels)
  have a1: "Str ident \<notin> set (labels ?df1)"
    using assms(4,5,9) idl unfolding l1 by auto
  have a2: "Str ident \<notin> set (labels ?df2)"
    unfolding l2 by simp
  have a3: "set (labels ?df1) \<inter> set (labels ?df2) = {}"
    using assms(9) unfolding l1 l2 by auto
  have mem: "\<And>i. i \<in> set ?groups \<longleftrightarrow> i \<in> set ids \<and> i \<noteq> NaN"
    by (auto simp: set_sort_cells set_unique)
  have kept: "filter (\<lambda>i. i \<in> set ?groups) ?rows = filter (\<lambda>i. i \<noteq> NaN) ?rows"
    by (rule filter_cong) (auto simp: mem set_sort_cells set_unique)
  have pass: "?pass = filter (\<lambda>p. fst p \<notin> {Str ident, Str key, Str value}) (columns ?df)"
    by (auto intro: filter_cong)
  have right: "\<And>vs. map (\<lambda>i. or_nan (map_of (zip ?groups (map (\<lambda>g. first_valid (group_values ids g vs)) ?groups)) i))
                         (filter (\<lambda>i. i \<noteq> NaN) ?rows)
                   = map (\<lambda>g. first_valid (group_values ids g vs)) (filter (\<lambda>i. i \<noteq> NaN) ?rows)"
    by (rule map_cong) (auto simp: map_of_zip_map or_nan_def mem set_sort_cells set_unique)
  have left: "\<And>vs. filter (\<lambda>q. fst q \<in> set ?groups) (zip ?rows vs) = filter (\<lambda>q. fst q \<noteq> NaN) (zip ?rows vs)"
    by (rule filter_cong) (auto simp: mem set_sort_cells set_unique dest: set_zip_leftD)
  let ?kept = "filter (\<lambda>i. i \<noteq> NaN) ?rows"
  let ?A = "map (\<lambda>k. (k, map snd (filter (\<lambda>q. fst q \<noteq> NaN)
                (zip ?rows (map (\<lambda>i. or_nan (map_of (zip (zip ids keys) vals) (i, k))) ?rows)))))
              (sort_cells (unique keys))"
  let ?B = "map (\<lambda>p. (fst p, map (\<lambda>g. first_valid (group_values ids g (snd p))) ?kept)) ?pass"
  have m: "merge ?df1 ?df2 (Str ident) = Inr \<lparr>index_name = Some (Str ident), index = ?kept, columns = ?A @ ?B\<rparr>"
    unfolding merge_disjoint [OF a1 a2 a3]
    by (simp add: kept right left comp_def)
  have "pre_processing w df key value ident =
          new_frame \<lparr>index_name = Some (Str ident), index = ?kept, columns = ?A @ ?B\<rparr>
            (logging (Info ''Pre-processing done correctly'') w)"
    by (simp only: pre_processing_def body m sum.case prod.case)
  then show ?thesis
    unfolding pass by (intro exI conjI) (assumption, simp_all)
qed

text \<open>
  Claim C5. A table in which some (ID, key) pair occurs in two rows: \<open>pre_processing\<close>
  logs an error and returns \<^verbatim>\<open>None\<close>; no table is created or changed.
\<close>

theorem pre_processing_duplicate_pair:
  assumes "getitem (heap w df) (Str ident) = Inr ids"
      and "getitem (heap w df) (Str key) = Inr keys"
      and "i < j" and "j < length ids" and "j < length keys"
      and "ids ! i = ids ! j" and "keys ! i = keys ! j"
  shows "pre_processing w df key value ident =
           (w\<lparr>log := log w @ [Error ''An unexpected error occured while pre-processing'']\<rparr>,
            Returned None)"
proof -
  have "zip ids keys ! i = zip ids keys ! j" "i < length (zip ids keys)" "j < length (zip ids keys)"
    using assms by auto
  with \<open>i < j\<close> have "\<not> distinct (zip ids keys)"
    by (metis nat_neq_iff nth_eq_iff_index_eq)
  then have "\<exists>e. set_index_unstack (heap w df) (Str ident) (Str key) (Str value) = Inl e"
    using assms(1,2) by (auto simp: set_index_unstack_def split: sum.splits)
  then have "\<exists>e. pre_processing_try (heap w df) key value ident = Inl e"
    by (auto simp: pre_processing_try_def)
  then show ?thesis
    by (auto simp: pre_processing_def logging_def)
qed

theorem pre_processing_duplicate_pair_witness:
  "getitem cars_dup (Str ''ID'') = Inr [Num 1, Num 2, Num 1]
   \<and> getitem cars_dup (Str ''Attribute Names'') = Inr [Str ''Color'', Str ''Color'', Str ''Color'']
   \<and> snd (pre_processing (world_of cars_dup) 0 ''Attribute Names'' ''Attribute Values'' ''ID'')
       = Returned None
   \<and> log (fst (pre_processing (world_of cars_dup) 0 ''Attribute Names'' ''Attribute Values'' ''ID''))
       = [Error ''An unexpected error occured while pre-processing'']
   \<and> heap (fst (pre_processing (world_of cars_dup) 0 ''Attribute Names'' ''Attribute Values'' ''ID'')) 0
       = cars_dup"
proof -
  have a: "getitem (heap (world_of cars_dup) 0) (Str ''ID'') = Inr [Num 1, Num 2, Num 1]"
    and b: "getitem (heap (world_of cars_dup) 0) (Str ''Attribute Names'') = Inr [Str ''Color'', Str ''Color'', Str ''Color'']"
    by (simp_all add: world_of_def cars_dup_def getitem_def)
  show ?thesis
    using a b pre_processing_duplicate_pair [OF a b, of 0 2 "''Attribute Values''"]
    by (simp add: world_of_def)
qed

text \<open>
  Claim C1, as amended. The table has the three columns under three different names,
  every (ID, key) pair occurs once, the row index is not named like the ID column, and no
  key value is the label of a column other than the key and value columns. Then
  \<open>pre_processing\<close> returns a new table with exactly one row per distinct ID that is not
  missing, whose columns are the distinct key values together with the passthrough
  columns (all columns but the ID, key and value columns).
\<close>

theorem pre_processing_wide_table:
  assumes "wf_frame (heap w df)"
      and "getitem (heap w df) (Str ident) = Inr ids"
      and "getitem (heap w df) (Str key) = Inr keys"
      and "getitem (heap w df) (Str value) = Inr vals"
      and "ident \<noteq> key" and "ident \<noteq> value" and "key \<noteq> value"
      and "distinct (zip ids keys)"
      and "index_name (heap w df) \<noteq> Some (Str ident)"
      and "set keys \<inter> (set (labels (heap w df)) - {Str key, Str value}) = {}"
  shows "\<exists>out. pre_processing w df key value ident =
                 new_frame out (logging (Info ''Pre-processing done correctly'') w)
          \<and> wf_frame out
          \<and> distinct (index out) \<and> set (index out) = set ids - {NaN}
          \<and> set (labels out) = set keys \<union> (set (labels (heap w df)) - {Str ident, Str key, Str value})"
proof -
  let ?rows = "sort_cells (unique ids)"
  let ?kept = "filter (\<lambda>i. i \<noteq> NaN) ?rows"
  let ?pass = "filter (\<lambda>p. fst p \<notin> {Str ident, Str key, Str value}) (columns (heap w df))"
  from pre_processing_output [OF assms(2-10)] obtain out where
    run: "pre_processing w df key value ident =
            new_frame out (logging (Info ''Pre-processing done correctly'') w)"
    and idx: "index out = ?kept"
    and cols: "columns out =
              map (\<lambda>k. (k, map snd (filter (\<lambda>q. fst q \<noteq> NaN)
                                       (zip ?rows
                                            (map (\<lambda>i. or_nan (map_of (zip (zip ids keys) vals) (i, k))) ?rows)))))
                  (sort_cells (unique keys)) @
              map (\<lambda>p. (fst p, map (\<lambda>g. first_valid (group_values ids g (snd p))) ?kept)) ?pass"
    by blast
  have lbl: "labels out = sort_cells (unique keys) @ map fst ?pass"
    by (simp add: labels_def cols comp_def)
  have sl: "set (labels out) = set keys \<union> (set (labels (heap w df)) - {Str ident, Str key, Str value})"
    unfolding lbl by (auto simp: set_sort_cells set_unique labels_def)
  have "distinct (map fst ?pass)"
    using assms(1) by (simp add: wf_frame_def labels_def distinct_map_filter)
  moreover have "set (sort_cells (unique keys)) \<inter> set (map fst ?pass) = {}"
    using assms(10) by (auto simp: set_sort_cells set_unique labels_def)
  ultimately have dl: "distinct (labels out)"
    unfolding lbl by (simp add: distinct_sort_cells distinct_unique)
  have len: "\<forall>c \<in> set (columns out). length (snd c) = length (index out)"
    unfolding cols idx by (auto simp: length_filter_zip_fst [where P = "\<lambda>i. i \<noteq> NaN"])
  have di: "distinct (index out)"
    unfolding idx by (simp add: distinct_sort_cells distinct_unique)
  have si: "set (index out) = set ids - {NaN}"
    unfolding idx by (auto simp: set_sort_cells set_unique)
  from run dl len di si sl show ?thesis
    unfolding wf_frame_def by blast
qed

theorem pre_processing_wide_table_witness:
  "wf_frame cars
   \<and> distinct (zip [Num 1, Num 1, Num 2, Num 2] [Str ''Color'', Str ''City'', Str ''Color'', Str ''City''])
   \<and> (\<exists>out. pre_processing (world_of cars) 0 ''Attribute Names'' ''Attribute Values'' ''ID'' =
               new_frame out (logging (Info ''Pre-processing done correctly'') (world_of cars))
         \<and> wf_frame out \<and> distinct (index out) \<and> set (index out) = {Num 1, Num 2}
         \<and> set (labels out) = {Str ''Color'', Str ''City'', Str ''MakeText'', Str ''TypeName''})"
proof -
  have h: "heap (world_of cars) 0 = cars"
    by (simp add: world_of_def)
  have wf: "wf_frame (heap (world_of cars) 0)"
    unfolding h by (simp add: wf_frame_def cars_def labels_def)
  have a: "getitem (heap (world_of cars) 0) (Str ''ID'') = Inr [Num 1, Num 1, Num 2, Num 2]"
    and b: "getitem (heap (world_of cars) 0) (Str ''Attribute Names'') =
              Inr [Str ''Color'', Str ''City'', Str ''Color'', Str ''City'']"
    and c: "getitem (heap (world_of cars) 0) (Str ''Attribute Values'') =
              Inr [Str ''rood'', Str ''Zuzwil'', Str ''blauw'', Str ''Basel'']"
    unfolding h by (simp_all add: cars_def getitem_def)
  have d: "distinct (zip [Num 1, Num 1, Num 2, Num 2] [Str ''Color'', Str ''City'', Str ''Color'', Str ''City''])"
    by simp
  have n: "index_name (heap (world_of cars) 0) \<noteq> Some (Str ''ID'')"
    unfolding h by (simp add: cars_def)
  have k: "set [Str ''Color'', Str ''City'', Str ''Color'', Str ''City''] \<inter>
             (set (labels (heap (world_of cars) 0)) - {Str ''Attribute Names'', Str ''Attribute Values''}) = {}"
    unfolding h by (simp add: cars_def labels_def)
  have s1: "set [Num 1, Num 1, Num 2, Num 2] - {NaN} = {Num 1, Num 2}"
    by auto
  have s2: "set [Str ''Color'', Str ''City'', Str ''Color'', Str ''City''] \<union>
             (set (labels (heap (world_of cars) 0)) - {Str ''ID'', Str ''Attribute Names'', Str ''Attribute Values''})
           = {Str ''Color'', Str ''City'', Str ''MakeText'', Str ''TypeName''}"
    unfolding h by (auto simp: cars_def labels_def)
  from pre_processing_wide_table [OF wf a b c _ _ _ d n k]
  show ?thesis
    unfolding s1 s2 using wf d unfolding h by simp
qed

text \<open>
  Claim C1 as stated fails: in \<open>cars_clash\<close> every (ID, key) pair occurs once, but the key
  value \<^verbatim>\<open>MakeText\<close> is also the name of a passthrough column. The merge renames both
  columns (\<^verbatim>\<open>MakeText_x\<close>, \<^verbatim>\<open>MakeText_y\<close>), so the columns of the result are not the
  key values united with the passthrough columns.
\<close>

theorem pre_processing_column_clash:
  "wf_frame cars_clash
   \<and> getitem cars_clash (Str ''ID'') = Inr [Num 1, Num 1]
   \<and> getitem cars_clash (Str ''Attribute Names'') = Inr [Str ''Color'', Str ''MakeText'']
   \<and> distinct (zip [Num 1, Num 1] [Str ''Color'', Str ''MakeText''])
   \<and> snd (pre_processing (world_of cars_clash) 0 ''Attribute Names'' ''Attribute Values'' ''ID'')
       = Returned (Some 1)
   \<and> labels (heap (fst (pre_processing (world_of cars_clash) 0 ''Attribute Names'' ''Attribute Values'' ''ID'')) 1)
       = [Str ''Color'', Str ''MakeText_x'', Str ''MakeText_y'']
   \<and> set (labels (heap (fst (pre_processing (world_of cars_clash) 0 ''Attribute Names'' ''Attribute Values'' ''ID'')) 1))
       \<noteq> set [Str ''Color'', Str ''MakeText'']
           \<union> (set (labels cars_clash) - {Str ''ID'', Str ''Attribute Names'', Str ''Attribute Values''})"
proof -
  have l: "labels (heap (fst (pre_processing (world_of cars_clash) 0 ''Attribute Names'' ''Attribute Values'' ''ID'')) 1)
       = [Str ''Color'', Str ''MakeText_x'', Str ''MakeText_y'']"
    by code_simp
  have r: "snd (pre_processing (world_of cars_clash) 0 ''Attribute Names'' ''Attribute Values'' ''ID'')
       = Returned (Some 1)"
    by code_simp
  have w: "wf_frame cars_clash"
    by (simp add: wf_frame_def cars_clash_def labels_def)
  have g: "getitem cars_clash (Str ''ID'') = Inr [Num 1, Num 1]"
      "getitem cars_clash (Str ''Attribute Names'') = Inr [Str ''Color'', Str ''MakeText'']"
    by (simp_all add: cars_clash_def getitem_def)
  have d: "distinct (zip [Num 1, Num 1] [Str ''Color'', Str ''MakeText''])"
    by simp
  have n: "set (labels (heap (fst (pre_processing (world_of cars_clash) 0 ''Attribute Names'' ''Attribute Values'' ''ID'')) 1))
       \<noteq> set [Str ''Color'', Str ''MakeText'']
           \<union> (set (labels cars_clash) - {Str ''ID'', Str ''Attribute Names'', Str ''Attribute Values''})"
  proof
    assume eq: "set (labels (heap (fst (pre_processing (world_of cars_clash) 0 ''Attribute Names'' ''Attribute Values'' ''ID'')) 1))
       = set [Str ''Color'', Str ''MakeText'']
           \<union> (set (labels cars_clash) - {Str ''ID'', Str ''Attribute Names'', Str ''Attribute Values''})"
    have "Str ''MakeText'' \<in> set [Str ''Color'', Str ''MakeText'']
           \<union> (set (labels cars_clash) - {Str ''ID'', Str ''Attribute Names'', Str ''Attribute Values''})"
      by simp
    then have "Str ''MakeText'' \<in> set [Str ''Color'', Str ''MakeText_x'', Str ''MakeText_y'']"
      unfolding eq [symmetric] l .
    then show False by simp
  qed
  show ?thesis
    by (intro conjI) (fact w, fact g(1), fact g(2), fact d, fact r, fact l, fact n)
qed




end
